theory Spec2Isabelle
  imports Complex_Main
begin

section \<open>Inverted pendulum on a cart with a PID controller\<close>

text \<open>
  A shallow embedding of \<^verbatim>\<open>src/lib/InvertedPendulum.ts\<close>: the enhanced
  \<^verbatim>\<open>InvertedPendulum\<close> class (lines 6-213) and the enhanced
  \<^verbatim>\<open>PIDController\<close> class (lines 389-540).

  Objects. An instance is a record of its fields; a method takes the record and returns
  the updated record (and the returned number, if the method returns one). The
  \<^verbatim>\<open>readonly\<close> fields, which are initialised once to a literal, are constants.

  Numbers. The code is embedded twice.

  The first embedding, this section, takes a TypeScript \<^verbatim>\<open>number\<close> as a
  \<^typ>\<open>real\<close>: every arithmetic operation is the exact one, \<^verbatim>\<open>Math.PI\<close> is
  \<^term>\<open>pi\<close>, \<^verbatim>\<open>Math.sin\<close>, \<^verbatim>\<open>Math.cos\<close> are \<^term>\<open>sin\<close>, \<^term>\<open>cos\<close>,
  \<^verbatim>\<open>Math.abs\<close>, \<^verbatim>\<open>Math.sign\<close>, \<^verbatim>\<open>Math.max\<close>, \<^verbatim>\<open>Math.min\<close> are
  \<^term>\<open>abs\<close>, \<^term>\<open>sgn\<close>, \<^term>\<open>max\<close>, \<^term>\<open>min\<close>. Rounding, the
  infinities and NaN of IEEE doubles are outside it: a quotient whose divisor
  is zero is a value here (\<open>x / 0 = 0\<close> in HOL) where JavaScript returns an infinity
  or NaN, in both cases without an exception. It is used for the statements about
  which fields a method writes, which branch it takes and which formula it evaluates.

  The second embedding, the next section, has the numbers of JavaScript: NaN, the two
  infinities, rounding after every operation, and loops that may not end. It is used
  for the statements about the range of a computed value.
\<close>

subsection \<open>Angle normalisation\<close>

text \<open>
  \<^verbatim>\<open>
  private normalizeAngle(angle: number): number {
    while (angle > Math.PI) angle -= 2 * Math.PI;
    while (angle < -Math.PI) angle += 2 * Math.PI;
    return angle;
  }
  \<close>
  Both classes carry this private method with the same text (lines 148-152 and
  487-491). Each \<^verbatim>\<open>while\<close> is one recursive function.
\<close>

function normalizeAngle_loop1 :: "real \<Rightarrow> real" where
  "normalizeAngle_loop1 angle =
     (if angle > pi then normalizeAngle_loop1 (angle - 2 * pi) else angle)"
  by pat_completeness auto

text \<open>
  The first loop ends: the number of whole turns above zero,
  \<open>\<lceil>angle / 2\<pi>\<rceil>\<close>, is at least one while \<open>angle > \<pi>\<close> and drops by one with
  each pass.
\<close>

termination normalizeAngle_loop1
proof (relation "measure (\<lambda>a. nat \<lceil>a / (2 * pi)\<rceil>)")
  show "wf (measure (\<lambda>a. nat \<lceil>a / (2 * pi)\<rceil>))" by simp
next
  fix angle :: real
  assume above: "pi < angle"
  have "(angle - 2 * pi) / (2 * pi) = angle / (2 * pi) - 1"
    by (simp add: diff_divide_distrib)
  then have shift: "\<lceil>(angle - 2 * pi) / (2 * pi)\<rceil> = \<lceil>angle / (2 * pi)\<rceil> - 1"
    by simp
  have "angle > 0"
    using above pi_gt_zero by linarith
  then have "angle / (2 * pi) > 0"
    by (intro divide_pos_pos) simp_all
  then have "\<lceil>angle / (2 * pi)\<rceil> \<ge> 1"
    using zero_less_ceiling [of "angle / (2 * pi)"] by linarith
  with shift have "nat \<lceil>(angle - 2 * pi) / (2 * pi)\<rceil> < nat \<lceil>angle / (2 * pi)\<rceil>"
    by simp
  then show "(angle - 2 * pi, angle) \<in> measure (\<lambda>a. nat \<lceil>a / (2 * pi)\<rceil>)"
    unfolding in_measure .
qed

function normalizeAngle_loop2 :: "real \<Rightarrow> real" where
  "normalizeAngle_loop2 angle =
     (if angle < - pi then normalizeAngle_loop2 (angle + 2 * pi) else angle)"
  by pat_completeness auto

termination normalizeAngle_loop2
proof (relation "measure (\<lambda>a. nat \<lceil>(- a) / (2 * pi)\<rceil>)")
  show "wf (measure (\<lambda>a. nat \<lceil>(- a) / (2 * pi)\<rceil>))" by simp
next
  fix angle :: real
  assume below: "angle < - pi"
  have "(- (angle + 2 * pi)) / (2 * pi) = (- angle) / (2 * pi) - 1"
    by (simp add: diff_divide_distrib add_divide_distrib)
  then have shift: "\<lceil>(- (angle + 2 * pi)) / (2 * pi)\<rceil> = \<lceil>(- angle) / (2 * pi)\<rceil> - 1"
    by simp
  have "- angle > 0"
    using below pi_gt_zero by linarith
  then have "(- angle) / (2 * pi) > 0"
    by (intro divide_pos_pos) simp_all
  then have "\<lceil>(- angle) / (2 * pi)\<rceil> \<ge> 1"
    using zero_less_ceiling [of "(- angle) / (2 * pi)"] by linarith
  with shift
  have "nat \<lceil>(- (angle + 2 * pi)) / (2 * pi)\<rceil> < nat \<lceil>(- angle) / (2 * pi)\<rceil>"
    by simp
  then show "(angle + 2 * pi, angle) \<in> measure (\<lambda>a. nat \<lceil>(- a) / (2 * pi)\<rceil>)"
    unfolding in_measure .
qed

declare normalizeAngle_loop1.simps [simp del]
declare normalizeAngle_loop2.simps [simp del]

definition normalizeAngle :: "real \<Rightarrow> real" where
  "normalizeAngle angle = normalizeAngle_loop2 (normalizeAngle_loop1 angle)"

subsection \<open>The pendulum: fields and constants\<close>

text \<open>
  The five public state fields form the snapshot that \<^verbatim>\<open>getState\<close> returns; the
  object is that snapshot extended by the six private parameters (lines 8-28).
  The field \<^verbatim>\<open>length\<close> is written \<open>length'\<close>.
\<close>

record PendulumState =
  cartPosition :: real
  cartVelocity :: real
  pendulumAngle :: real
  pendulumAngularVelocity :: real
  hasFailed :: bool

record InvertedPendulum = PendulumState +
  massCart :: real
  massPendulum :: real
  length' :: real
  gravity :: real
  friction :: real
  airResistance :: real

record PendulumParameters =
  par_massCart :: real
  par_massPendulum :: real
  par_airResistance :: real

record StateDerivative =
  dx :: real
  dv :: real
  dtheta :: real
  domega :: real

definition maxCartPosition :: real where
  "maxCartPosition = 5.0"

definition maxCartVelocity :: real where
  "maxCartVelocity = 10.0"

definition maxAngularVelocity :: real where
  "maxAngularVelocity = 20.0"

definition failureAngleThreshold :: real where
  "failureAngleThreshold = pi / 3"

text \<open>
  The constructor (lines 30-40); the fields it does not assign keep their initialisers.
  Its arguments default to \<open>1.0\<close>, \<open>0.1\<close>, \<open>1.0\<close>, \<open>0.1\<close>.
\<close>

definition InvertedPendulum_new :: "real \<Rightarrow> real \<Rightarrow> real \<Rightarrow> real \<Rightarrow> InvertedPendulum" where
  "InvertedPendulum_new massCart0 massPendulum0 length0 initialAngle =
     \<lparr> cartPosition = 0, cartVelocity = 0, pendulumAngle = initialAngle,
       pendulumAngularVelocity = 0, hasFailed = False,
       massCart = massCart0, massPendulum = massPendulum0, length' = length0,
       gravity = 9.81, friction = 0.1, airResistance = 0.01 \<rparr>"

subsection \<open>The equations of motion\<close>

text \<open>
  \<^verbatim>\<open>derivative(force, dt = 0, k?)\<close> (lines 95-143). The optional \<^verbatim>\<open>k\<close> is an
  \<open>option\<close>; an object is truthy, so \<^verbatim>\<open>k ? k.dx * dt : 0\<close> tests presence only.
  The two divisors are named, so that statements can speak of them.
\<close>

definition denominator :: "InvertedPendulum \<Rightarrow> real \<Rightarrow> real" where
  "denominator this theta =
     (let cosTheta = cos theta;
          totalMass = massCart this + massPendulum this
      in totalMass - massPendulum this * cosTheta * cosTheta)"

definition angularDivisor :: "InvertedPendulum \<Rightarrow> real \<Rightarrow> real" where
  "angularDivisor this theta = length' this * denominator this theta"

definition derivative ::
  "InvertedPendulum \<Rightarrow> real \<Rightarrow> real \<Rightarrow> StateDerivative option \<Rightarrow> StateDerivative" where
  "derivative this force dt k =
     (let x = cartPosition this + (case k of Some k' \<Rightarrow> dx k' * dt | None \<Rightarrow> 0);
          v = cartVelocity this + (case k of Some k' \<Rightarrow> dv k' * dt | None \<Rightarrow> 0);
          theta = pendulumAngle this + (case k of Some k' \<Rightarrow> dtheta k' * dt | None \<Rightarrow> 0);
          omega = pendulumAngularVelocity this
                    + (case k of Some k' \<Rightarrow> domega k' * dt | None \<Rightarrow> 0);
          sinTheta = sin theta;
          cosTheta = cos theta;
          totalMass = massCart this + massPendulum this
      in if \<bar>denominator this theta\<bar> < 0.001
         then \<lparr> dx = v, dv = 0, dtheta = omega, domega = 0 \<rparr>
         else
           (let frictionForce = friction this * v + 0.01 * v * \<bar>v\<bar>;
                cartAccel =
                  (force - frictionForce
                     + massPendulum this * length' this * omega * omega * sinTheta
                     - massPendulum this * gravity this * sinTheta * cosTheta)
                  / denominator this theta;
                angularDamping = airResistance this * omega + 0.001 * omega * \<bar>omega\<bar>;
                angularAccel =
                  (force * cosTheta - frictionForce * cosTheta
                     + totalMass * gravity this * sinTheta
                     + massPendulum this * length' this * omega * omega * sinTheta * cosTheta
                     - angularDamping * length' this)
                  / angularDivisor this theta
            in \<lparr> dx = v, dv = cartAccel, dtheta = omega, domega = angularAccel \<rparr>))"

subsection \<open>One simulation step\<close>

text \<open>
  \<^verbatim>\<open>update(force, dt)\<close> (lines 47-90) runs five blocks in order after clamping its
  arguments. Each block is one function here, named after what the block does.
\<close>

text \<open>Lines 55-58: the failure check, on the angle the call starts with.\<close>

definition update_failureCheck :: "InvertedPendulum \<Rightarrow> InvertedPendulum" where
  "update_failureCheck this =
     (if \<bar>pendulumAngle this\<bar> > failureAngleThreshold
      then this\<lparr>hasFailed := True\<rparr> else this)"

text \<open>Lines 60-70: the four slopes, all taken before any field is written, then the sums.\<close>

definition update_rk4 :: "InvertedPendulum \<Rightarrow> real \<Rightarrow> real \<Rightarrow> InvertedPendulum" where
  "update_rk4 this force dt =
     (let k1 = derivative this force 0 None;
          k2 = derivative this force (dt / 2) (Some k1);
          k3 = derivative this force (dt / 2) (Some k2);
          k4 = derivative this force dt (Some k3)
      in this\<lparr>
           cartPosition := cartPosition this
             + (dt / 6) * (dx k1 + 2 * dx k2 + 2 * dx k3 + dx k4),
           cartVelocity := cartVelocity this
             + (dt / 6) * (dv k1 + 2 * dv k2 + 2 * dv k3 + dv k4),
           pendulumAngle := pendulumAngle this
             + (dt / 6) * (dtheta k1 + 2 * dtheta k2 + 2 * dtheta k3 + dtheta k4),
           pendulumAngularVelocity := pendulumAngularVelocity this
             + (dt / 6) * (domega k1 + 2 * domega k2 + 2 * domega k3 + domega k4)\<rparr>)"

text \<open>Lines 72-79: the soft limits on the two velocities.\<close>

definition update_velocityLimits :: "InvertedPendulum \<Rightarrow> InvertedPendulum" where
  "update_velocityLimits this =
     (let this1 =
            (if \<bar>cartVelocity this\<bar> > maxCartVelocity
             then this\<lparr>cartVelocity := sgn (cartVelocity this) * maxCartVelocity * 0.95\<rparr>
             else this)
      in if \<bar>pendulumAngularVelocity this1\<bar> > maxAngularVelocity
         then this1\<lparr>pendulumAngularVelocity :=
                      sgn (pendulumAngularVelocity this1) * maxAngularVelocity * 0.95\<rparr>
         else this1)"

text \<open>Lines 81-85: the hard limit on the position, with the bounce.\<close>

definition update_positionLimit :: "InvertedPendulum \<Rightarrow> InvertedPendulum" where
  "update_positionLimit this =
     (if \<bar>cartPosition this\<bar> > maxCartPosition
      then this\<lparr>cartPosition := sgn (cartPosition this) * maxCartPosition,
                cartVelocity := cartVelocity this * (- 0.5)\<rparr>
      else this)"

text \<open>Lines 87-89: the angle is normalised last.\<close>

definition update_normalize :: "InvertedPendulum \<Rightarrow> InvertedPendulum" where
  "update_normalize this = this\<lparr>pendulumAngle := normalizeAngle (pendulumAngle this)\<rparr>"

text \<open>
  The state on which the position limit acts: after the failure check, the
  Runge-Kutta sums and the velocity limits of a call with these arguments.
\<close>

definition update_beforePositionLimit ::
  "InvertedPendulum \<Rightarrow> real \<Rightarrow> real \<Rightarrow> InvertedPendulum" where
  "update_beforePositionLimit this force dt =
     (let maxForce = 50.0;
          force1 = max (- maxForce) (min maxForce force);
          dt1 = min dt 0.02
      in update_velocityLimits (update_rk4 (update_failureCheck this) force1 dt1))"

definition update :: "InvertedPendulum \<Rightarrow> real \<Rightarrow> real \<Rightarrow> InvertedPendulum" where
  "update this force dt =
     update_normalize (update_positionLimit (update_beforePositionLimit this force dt))"

subsection \<open>The other methods of the pendulum\<close>

text \<open>
  \<^verbatim>\<open>reset(initialAngle = 0.1)\<close> (lines 157-163): an omitted argument is \<open>None\<close>.
\<close>

definition reset :: "InvertedPendulum \<Rightarrow> real option \<Rightarrow> InvertedPendulum" where
  "reset this initialAngle =
     this\<lparr>cartPosition := 0,
          cartVelocity := 0,
          pendulumAngle := (case initialAngle of Some a \<Rightarrow> a | None \<Rightarrow> 0.1),
          pendulumAngularVelocity := 0,
          hasFailed := False\<rparr>"

text \<open>\<^verbatim>\<open>getState()\<close> (lines 168-182) builds a new object from the five state fields.\<close>

definition getState :: "InvertedPendulum \<Rightarrow> PendulumState" where
  "getState this =
     \<lparr> cartPosition = cartPosition this,
       cartVelocity = cartVelocity this,
       pendulumAngle = pendulumAngle this,
       pendulumAngularVelocity = pendulumAngularVelocity this,
       hasFailed = hasFailed this \<rparr>"

text \<open>\<^verbatim>\<open>setMasses\<close> (lines 187-190) and \<^verbatim>\<open>setAirResistance\<close> (lines 195-197).\<close>

definition setMasses :: "InvertedPendulum \<Rightarrow> real \<Rightarrow> real \<Rightarrow> InvertedPendulum" where
  "setMasses this cartMass pendulumMass =
     this\<lparr>massCart := max 0.1 cartMass, massPendulum := max 0.01 pendulumMass\<rparr>"

definition setAirResistance :: "InvertedPendulum \<Rightarrow> real \<Rightarrow> InvertedPendulum" where
  "setAirResistance this resistance = this\<lparr>airResistance := max 0 resistance\<rparr>"

text \<open>\<^verbatim>\<open>getParameters()\<close> (lines 202-212).\<close>

definition getParameters :: "InvertedPendulum \<Rightarrow> PendulumParameters" where
  "getParameters this =
     \<lparr> par_massCart = massCart this,
       par_massPendulum = massPendulum this,
       par_airResistance = airResistance this \<rparr>"

text \<open>
  A run of the object: the calls a driver can make, in order. The two accessors
  return a value and leave the object as it is.
\<close>

datatype call =
    Update real real
  | SetMasses real real
  | SetAirResistance real
  | GetState
  | GetParameters
  | Reset "real option"

fun perform :: "call \<Rightarrow> InvertedPendulum \<Rightarrow> InvertedPendulum" where
  "perform (Update force dt) this = update this force dt"
| "perform (SetMasses cartMass pendulumMass) this = setMasses this cartMass pendulumMass"
| "perform (SetAirResistance resistance) this = setAirResistance this resistance"
| "perform GetState this = this"
| "perform GetParameters this = this"
| "perform (Reset initialAngle) this = reset this initialAngle"

fun run :: "call list \<Rightarrow> InvertedPendulum \<Rightarrow> InvertedPendulum" where
  "run [] this = this"
| "run (c # cs) this = run cs (perform c this)"

fun isReset :: "call \<Rightarrow> bool" where
  "isReset (Reset initialAngle) = True"
| "isReset c = False"

fun isUpdate :: "call \<Rightarrow> bool" where
  "isUpdate (Update force dt) = True"
| "isUpdate c = False"

subsection \<open>The PID controller\<close>

text \<open>
  The fields of \<^verbatim>\<open>PIDController\<close> (lines 390-411) and its \<^verbatim>\<open>readonly\<close>
  constants.
\<close>

record PIDController =
  kp :: real
  ki :: real
  kd :: real
  integral :: real
  previousError :: real
  previousTime :: real
  filteredDerivative :: real
  useAngleWrapping :: bool

record PIDGains =
  gain_kp :: real
  gain_ki :: real
  gain_kd :: real

definition derivativeFilterAlpha :: real where
  "derivativeFilterAlpha = 0.1"

definition integralMax :: real where
  "integralMax = 100"

definition integralMin :: real where
  "integralMin = - 100"

definition outputMax :: real where
  "outputMax = 50"

definition outputMin :: real where
  "outputMin = - 50"

text \<open>The constructor (lines 413-418); \<^verbatim>\<open>useAngleWrapping\<close> defaults to false.\<close>

definition PIDController_new :: "real \<Rightarrow> real \<Rightarrow> real \<Rightarrow> bool \<Rightarrow> PIDController" where
  "PIDController_new kp0 ki0 kd0 useAngleWrapping0 =
     \<lparr> kp = kp0, ki = ki0, kd = kd0,
       integral = 0, previousError = 0, previousTime = 0, filteredDerivative = 0,
       useAngleWrapping = useAngleWrapping0 \<rparr>"

text \<open>
  \<^verbatim>\<open>calculate(setpoint, processVariable, currentTime)\<close> (lines 427-482). Its first
  two local variables are functions of their own, so that statements can name them:
  \<^verbatim>\<open>error\<close> (lines 429-433) and \<^verbatim>\<open>dt\<close> (lines 436-437).
\<close>

definition calculate_error :: "PIDController \<Rightarrow> real \<Rightarrow> real \<Rightarrow> real" where
  "calculate_error this setpoint processVariable =
     (let error = setpoint - processVariable
      in if useAngleWrapping this then normalizeAngle error else error)"

definition calculate_dt :: "PIDController \<Rightarrow> real \<Rightarrow> real" where
  "calculate_dt this currentTime =
     (let dt = (if previousTime this = 0 then 0.016 else currentTime - previousTime this)
      in max 0.001 (min dt 0.1))"

text \<open>
  The method returns the saturated output and leaves the object updated: the result is
  the pair of both. \<open>integral1\<close> is the field after the clamp of line 447,
  \<open>integral2\<close> after the back-calculation of lines 471-474.
\<close>

definition calculate ::
  "PIDController \<Rightarrow> real \<Rightarrow> real \<Rightarrow> real \<Rightarrow> real \<times> PIDController" where
  "calculate this setpoint processVariable currentTime =
     (let error = calculate_error this setpoint processVariable;
          dt = calculate_dt this currentTime;
          P = kp this * error;
          integral0 = integral this + error * dt;
          integral1 = max integralMin (min integralMax integral0);
          I = ki this * integral1;
          filteredDerivative1 =
            (if dt > 0
             then (let rawDerivative = (error - previousError this) / dt
                   in derivativeFilterAlpha * rawDerivative
                        + (1 - derivativeFilterAlpha) * filteredDerivative this)
             else filteredDerivative this);
          derivative = (if dt > 0 then filteredDerivative1 else 0);
          D = kd this * derivative;
          output = P + I + D;
          saturatedOutput = max outputMin (min outputMax output);
          integral2 =
            (if output \<noteq> saturatedOutput \<and> sgn error = sgn integral1
             then integral1 - error * dt * 0.5
             else integral1)
      in (saturatedOutput,
          this\<lparr>integral := integral2,
               filteredDerivative := filteredDerivative1,
               previousError := error,
               previousTime := currentTime\<rparr>))"

text \<open>\<^verbatim>\<open>reset()\<close> of the controller (lines 496-501).\<close>

definition PID_reset :: "PIDController \<Rightarrow> PIDController" where
  "PID_reset this =
     this\<lparr>integral := 0, previousError := 0, previousTime := 0, filteredDerivative := 0\<rparr>"

text \<open>\<^verbatim>\<open>setGains\<close>, \<^verbatim>\<open>getGains\<close> and \<^verbatim>\<open>setAngleWrapping\<close> (lines 506-539).\<close>

definition setGains :: "PIDController \<Rightarrow> real \<Rightarrow> real \<Rightarrow> real \<Rightarrow> PIDController" where
  "setGains this kp0 ki0 kd0 = this\<lparr>kp := kp0, ki := ki0, kd := kd0\<rparr>"

definition getGains :: "PIDController \<Rightarrow> PIDGains" where
  "getGains this = \<lparr> gain_kp = kp this, gain_ki = ki this, gain_kd = kd this \<rparr>"

definition setAngleWrapping :: "PIDController \<Rightarrow> bool \<Rightarrow> PIDController" where
  "setAngleWrapping this enabled = this\<lparr>useAngleWrapping := enabled\<rparr>"

section \<open>The same code on the numbers of JavaScript\<close>

text \<open>
  A \<open>number\<close> is NaN, an infinity or a finite value \<open>Num x\<close>. The two zeros of
  a double are one value, \<open>Num 0\<close>; a quotient by zero has the sign of its numerator.

  The arithmetic is a parameter \<open>ar\<close> of every function: \<open>rnd ar\<close> takes the exact
  result of an operation on finite values to the number the operation returns (the
  nearest double, or an infinity on overflow), and \<open>sin_impl ar\<close>, \<open>cos_impl ar\<close>
  are the values \<^verbatim>\<open>Math.sin\<close>, \<^verbatim>\<open>Math.cos\<close> return on finite arguments. The
  operations on NaN and the infinities are those of IEEE 754.

  A decimal literal of the source that is not a double, such as \<^verbatim>\<open>0.1\<close>, is the
  rounded value \<open>lit ar 0.1\<close>; \<^verbatim>\<open>Math.PI\<close> is the rounded \<open>\<pi>\<close>. Integer literals and
  \<^verbatim>\<open>0.5\<close> are doubles and are written \<open>Num\<close>.
\<close>

datatype number = NaN | NegInf | Num real | PosInf

record arith =
  rnd :: "real \<Rightarrow> number"
  sin_impl :: "real \<Rightarrow> real"
  cos_impl :: "real \<Rightarrow> real"

definition lit :: "arith \<Rightarrow> real \<Rightarrow> number" where
  "lit ar r = rnd ar r"

fun js_neg :: "number \<Rightarrow> number" where
  "js_neg NaN = NaN"
| "js_neg NegInf = PosInf"
| "js_neg (Num x) = Num (- x)"
| "js_neg PosInf = NegInf"

fun js_add :: "arith \<Rightarrow> number \<Rightarrow> number \<Rightarrow> number" where
  "js_add ar NaN b = NaN"
| "js_add ar a NaN = NaN"
| "js_add ar PosInf NegInf = NaN"
| "js_add ar NegInf PosInf = NaN"
| "js_add ar PosInf b = PosInf"
| "js_add ar a PosInf = PosInf"
| "js_add ar NegInf b = NegInf"
| "js_add ar a NegInf = NegInf"
| "js_add ar (Num x) (Num y) = rnd ar (x + y)"

definition js_sub :: "arith \<Rightarrow> number \<Rightarrow> number \<Rightarrow> number" where
  "js_sub ar a b = js_add ar a (js_neg b)"

fun js_mul :: "arith \<Rightarrow> number \<Rightarrow> number \<Rightarrow> number" where
  "js_mul ar NaN b = NaN"
| "js_mul ar a NaN = NaN"
| "js_mul ar PosInf PosInf = PosInf"
| "js_mul ar PosInf NegInf = NegInf"
| "js_mul ar NegInf PosInf = NegInf"
| "js_mul ar NegInf NegInf = PosInf"
| "js_mul ar PosInf (Num y) = (if y = 0 then NaN else if 0 < y then PosInf else NegInf)"
| "js_mul ar NegInf (Num y) = (if y = 0 then NaN else if 0 < y then NegInf else PosInf)"
| "js_mul ar (Num x) PosInf = (if x = 0 then NaN else if 0 < x then PosInf else NegInf)"
| "js_mul ar (Num x) NegInf = (if x = 0 then NaN else if 0 < x then NegInf else PosInf)"
| "js_mul ar (Num x) (Num y) = rnd ar (x * y)"

fun js_div :: "arith \<Rightarrow> number \<Rightarrow> number \<Rightarrow> number" where
  "js_div ar NaN b = NaN"
| "js_div ar a NaN = NaN"
| "js_div ar PosInf PosInf = NaN"
| "js_div ar PosInf NegInf = NaN"
| "js_div ar NegInf PosInf = NaN"
| "js_div ar NegInf NegInf = NaN"
| "js_div ar PosInf (Num y) = (if 0 \<le> y then PosInf else NegInf)"
| "js_div ar NegInf (Num y) = (if 0 \<le> y then NegInf else PosInf)"
| "js_div ar (Num x) PosInf = Num 0"
| "js_div ar (Num x) NegInf = Num 0"
| "js_div ar (Num x) (Num y) =
     (if y = 0 then (if x = 0 then NaN else if 0 < x then PosInf else NegInf)
      else rnd ar (x / y))"

fun js_lt :: "number \<Rightarrow> number \<Rightarrow> bool" where
  "js_lt NaN b = False"
| "js_lt a NaN = False"
| "js_lt a NegInf = False"
| "js_lt NegInf b = True"
| "js_lt PosInf b = False"
| "js_lt a PosInf = True"
| "js_lt (Num x) (Num y) = (x < y)"

definition js_gt :: "number \<Rightarrow> number \<Rightarrow> bool" where
  "js_gt a b = js_lt b a"

definition js_eq :: "number \<Rightarrow> number \<Rightarrow> bool" where
  "js_eq a b = (a \<noteq> NaN \<and> b \<noteq> NaN \<and> a = b)"

definition js_le :: "number \<Rightarrow> number \<Rightarrow> bool" where
  "js_le a b = (js_lt a b \<or> js_eq a b)"

fun Math_abs :: "number \<Rightarrow> number" where
  "Math_abs NaN = NaN"
| "Math_abs NegInf = PosInf"
| "Math_abs (Num x) = Num \<bar>x\<bar>"
| "Math_abs PosInf = PosInf"

fun Math_sign :: "number \<Rightarrow> number" where
  "Math_sign NaN = NaN"
| "Math_sign NegInf = Num (- 1)"
| "Math_sign (Num x) = Num (sgn x)"
| "Math_sign PosInf = Num 1"

definition Math_max :: "number \<Rightarrow> number \<Rightarrow> number" where
  "Math_max a b = (if a = NaN \<or> b = NaN then NaN else if js_lt a b then b else a)"

definition Math_min :: "number \<Rightarrow> number \<Rightarrow> number" where
  "Math_min a b = (if a = NaN \<or> b = NaN then NaN else if js_lt b a then b else a)"

fun Math_sin :: "arith \<Rightarrow> number \<Rightarrow> number" where
  "Math_sin ar (Num x) = Num (sin_impl ar x)"
| "Math_sin ar a = NaN"

fun Math_cos :: "arith \<Rightarrow> number \<Rightarrow> number" where
  "Math_cos ar (Num x) = Num (cos_impl ar x)"
| "Math_cos ar a = NaN"

definition Math_PI :: "arith \<Rightarrow> number" where
  "Math_PI ar = rnd ar pi"

text \<open>
  One arithmetic to compute with: it rounds nothing and overflows to an infinity at
  \<open>2\<^sup>1\<^sup>0\<^sup>2\<^sup>4\<close>, with the real sine and cosine.
\<close>

definition unrounded :: arith where
  "unrounded =
     \<lparr> rnd = (\<lambda>x. if 2 ^ 1024 \<le> x then PosInf
                  else if x \<le> - (2 ^ 1024) then NegInf else Num x),
       sin_impl = sin, cos_impl = cos \<rparr>"

text \<open>
  \<^verbatim>\<open>normalizeAngle\<close> (lines 148-152 and 487-491). On doubles a loop need not end
  (\<^verbatim>\<open>Infinity - 2 * Math.PI\<close> is \<^verbatim>\<open>Infinity\<close>), so each loop is a partial function:
  \<open>None\<close> is a loop that runs forever.
\<close>

partial_function (option) normalizeAngle_loop1_js :: "arith \<Rightarrow> number \<Rightarrow> number option" where
  "normalizeAngle_loop1_js ar angle =
     (if js_gt angle (Math_PI ar)
      then normalizeAngle_loop1_js ar (js_sub ar angle (js_mul ar (Num 2) (Math_PI ar)))
      else Some angle)"

partial_function (option) normalizeAngle_loop2_js :: "arith \<Rightarrow> number \<Rightarrow> number option" where
  "normalizeAngle_loop2_js ar angle =
     (if js_lt angle (js_neg (Math_PI ar))
      then normalizeAngle_loop2_js ar (js_add ar angle (js_mul ar (Num 2) (Math_PI ar)))
      else Some angle)"

definition normalizeAngle_js :: "arith \<Rightarrow> number \<Rightarrow> number option" where
  "normalizeAngle_js ar angle =
     (case normalizeAngle_loop1_js ar angle of
        None \<Rightarrow> None
      | Some angle1 \<Rightarrow> normalizeAngle_loop2_js ar angle1)"



text \<open>The pendulum (lines 6-213), with the structure of the first embedding.\<close>

record InvertedPendulum_js =
  cartPosition_js :: number
  cartVelocity_js :: number
  pendulumAngle_js :: number
  pendulumAngularVelocity_js :: number
  hasFailed_js :: bool
  massCart_js :: number
  massPendulum_js :: number
  length_js :: number
  gravity_js :: number
  friction_js :: number
  airResistance_js :: number

record StateDerivative_js =
  dx_js :: number
  dv_js :: number
  dtheta_js :: number
  domega_js :: number

definition InvertedPendulum_js_new ::
  "arith \<Rightarrow> number \<Rightarrow> number \<Rightarrow> number \<Rightarrow> number \<Rightarrow> InvertedPendulum_js" where
  "InvertedPendulum_js_new ar massCart0 massPendulum0 length0 initialAngle =
     \<lparr> cartPosition_js = Num 0, cartVelocity_js = Num 0, pendulumAngle_js = initialAngle,
       pendulumAngularVelocity_js = Num 0, hasFailed_js = False,
       massCart_js = massCart0, massPendulum_js = massPendulum0, length_js = length0,
       gravity_js = lit ar 9.81, friction_js = lit ar 0.1, airResistance_js = lit ar 0.01 \<rparr>"

definition denominator_js :: "arith \<Rightarrow> InvertedPendulum_js \<Rightarrow> number \<Rightarrow> number" where
  "denominator_js ar this theta =
     (let cosTheta = Math_cos ar theta;
          totalMass = js_add ar (massCart_js this) (massPendulum_js this)
      in js_sub ar totalMass (js_mul ar (js_mul ar (massPendulum_js this) cosTheta) cosTheta))"

definition angularDivisor_js :: "arith \<Rightarrow> InvertedPendulum_js \<Rightarrow> number \<Rightarrow> number" where
  "angularDivisor_js ar this theta = js_mul ar (length_js this) (denominator_js ar this theta)"

definition derivative_js ::
  "arith \<Rightarrow> InvertedPendulum_js \<Rightarrow> number \<Rightarrow> number \<Rightarrow> StateDerivative_js option
     \<Rightarrow> StateDerivative_js" where
  "derivative_js ar this force dt k =
     (let x = js_add ar (cartPosition_js this)
                (case k of Some k' \<Rightarrow> js_mul ar (dx_js k') dt | None \<Rightarrow> Num 0);
          v = js_add ar (cartVelocity_js this)
                (case k of Some k' \<Rightarrow> js_mul ar (dv_js k') dt | None \<Rightarrow> Num 0);
          theta = js_add ar (pendulumAngle_js this)
                (case k of Some k' \<Rightarrow> js_mul ar (dtheta_js k') dt | None \<Rightarrow> Num 0);
          omega = js_add ar (pendulumAngularVelocity_js this)
                (case k of Some k' \<Rightarrow> js_mul ar (domega_js k') dt | None \<Rightarrow> Num 0);
          sinTheta = Math_sin ar theta;
          cosTheta = Math_cos ar theta;
          totalMass = js_add ar (massCart_js this) (massPendulum_js this)
      in if js_lt (Math_abs (denominator_js ar this theta)) (lit ar 0.001)
         then \<lparr> dx_js = v, dv_js = Num 0, dtheta_js = omega, domega_js = Num 0 \<rparr>
         else
           (let frictionForce =
                  js_add ar (js_mul ar (friction_js this) v)
                    (js_mul ar (js_mul ar (lit ar 0.01) v) (Math_abs v));
                cartAccel =
                  js_div ar
                    (js_sub ar
                      (js_add ar (js_sub ar force frictionForce)
                        (js_mul ar
                          (js_mul ar
                            (js_mul ar (js_mul ar (massPendulum_js this) (length_js this)) omega)
                            omega)
                          sinTheta))
                      (js_mul ar
                        (js_mul ar (js_mul ar (massPendulum_js this) (gravity_js this)) sinTheta)
                        cosTheta))
                    (denominator_js ar this theta);
                angularDamping =
                  js_add ar (js_mul ar (airResistance_js this) omega)
                    (js_mul ar (js_mul ar (lit ar 0.001) omega) (Math_abs omega));
                angularAccel =
                  js_div ar
                    (js_sub ar
                      (js_add ar
                        (js_add ar
                          (js_sub ar (js_mul ar force cosTheta) (js_mul ar frictionForce cosTheta))
                          (js_mul ar (js_mul ar totalMass (gravity_js this)) sinTheta))
                        (js_mul ar
                          (js_mul ar
                            (js_mul ar
                              (js_mul ar (js_mul ar (massPendulum_js this) (length_js this))
                                 omega)
                              omega)
                            sinTheta)
                          cosTheta))
                      (js_mul ar angularDamping (length_js this)))
                    (angularDivisor_js ar this theta)
            in \<lparr> dx_js = v, dv_js = cartAccel, dtheta_js = omega, domega_js = angularAccel \<rparr>))"

definition maxCartPosition_js :: number where
  "maxCartPosition_js = Num 5"

definition maxCartVelocity_js :: number where
  "maxCartVelocity_js = Num 10"

definition maxAngularVelocity_js :: number where
  "maxAngularVelocity_js = Num 20"

definition failureAngleThreshold_js :: "arith \<Rightarrow> number" where
  "failureAngleThreshold_js ar = js_div ar (Math_PI ar) (Num 3)"

definition update_failureCheck_js :: "arith \<Rightarrow> InvertedPendulum_js \<Rightarrow> InvertedPendulum_js" where
  "update_failureCheck_js ar this =
     (if js_gt (Math_abs (pendulumAngle_js this)) (failureAngleThreshold_js ar)
      then this\<lparr>hasFailed_js := True\<rparr> else this)"

text \<open>
  The weighted sum \<^verbatim>\<open>k1.dx + 2 * k2.dx + 2 * k3.dx + k4.dx\<close> of lines 67-70, added
  from left to right.
\<close>

definition rk4_sum :: "arith \<Rightarrow> number \<Rightarrow> number \<Rightarrow> number \<Rightarrow> number \<Rightarrow> number" where
  "rk4_sum ar a b c d =
     js_add ar (js_add ar (js_add ar a (js_mul ar (Num 2) b)) (js_mul ar (Num 2) c)) d"

definition update_rk4_js ::
  "arith \<Rightarrow> InvertedPendulum_js \<Rightarrow> number \<Rightarrow> number \<Rightarrow> InvertedPendulum_js" where
  "update_rk4_js ar this force dt =
     (let k1 = derivative_js ar this force (Num 0) None;
          k2 = derivative_js ar this force (js_div ar dt (Num 2)) (Some k1);
          k3 = derivative_js ar this force (js_div ar dt (Num 2)) (Some k2);
          k4 = derivative_js ar this force dt (Some k3)
      in this\<lparr>
           cartPosition_js := js_add ar (cartPosition_js this)
             (js_mul ar (js_div ar dt (Num 6))
                (rk4_sum ar (dx_js k1) (dx_js k2) (dx_js k3) (dx_js k4))),
           cartVelocity_js := js_add ar (cartVelocity_js this)
             (js_mul ar (js_div ar dt (Num 6))
                (rk4_sum ar (dv_js k1) (dv_js k2) (dv_js k3) (dv_js k4))),
           pendulumAngle_js := js_add ar (pendulumAngle_js this)
             (js_mul ar (js_div ar dt (Num 6))
                (rk4_sum ar (dtheta_js k1) (dtheta_js k2) (dtheta_js k3) (dtheta_js k4))),
           pendulumAngularVelocity_js := js_add ar (pendulumAngularVelocity_js this)
             (js_mul ar (js_div ar dt (Num 6))
                (rk4_sum ar (domega_js k1) (domega_js k2) (domega_js k3) (domega_js k4)))\<rparr>)"

definition update_velocityLimits_js :: "arith \<Rightarrow> InvertedPendulum_js \<Rightarrow> InvertedPendulum_js" where
  "update_velocityLimits_js ar this =
     (let this1 =
            (if js_gt (Math_abs (cartVelocity_js this)) maxCartVelocity_js
             then this\<lparr>cartVelocity_js :=
                         js_mul ar (js_mul ar (Math_sign (cartVelocity_js this)) maxCartVelocity_js)
                           (lit ar 0.95)\<rparr>
             else this)
      in if js_gt (Math_abs (pendulumAngularVelocity_js this1)) maxAngularVelocity_js
         then this1\<lparr>pendulumAngularVelocity_js :=
                      js_mul ar
                        (js_mul ar (Math_sign (pendulumAngularVelocity_js this1)) maxAngularVelocity_js)
                        (lit ar 0.95)\<rparr>
         else this1)"

definition update_positionLimit_js :: "arith \<Rightarrow> InvertedPendulum_js \<Rightarrow> InvertedPendulum_js" where
  "update_positionLimit_js ar this =
     (if js_gt (Math_abs (cartPosition_js this)) maxCartPosition_js
      then this\<lparr>cartPosition_js := js_mul ar (Math_sign (cartPosition_js this)) maxCartPosition_js,
                cartVelocity_js := js_mul ar (cartVelocity_js this) (Num (- 0.5))\<rparr>
      else this)"

definition update_normalize_js ::
  "arith \<Rightarrow> InvertedPendulum_js \<Rightarrow> InvertedPendulum_js option" where
  "update_normalize_js ar this =
     (case normalizeAngle_js ar (pendulumAngle_js this) of
        None \<Rightarrow> None
      | Some angle \<Rightarrow> Some (this\<lparr>pendulumAngle_js := angle\<rparr>))"

definition update_beforePositionLimit_js ::
  "arith \<Rightarrow> InvertedPendulum_js \<Rightarrow> number \<Rightarrow> number \<Rightarrow> InvertedPendulum_js" where
  "update_beforePositionLimit_js ar this force dt =
     (let maxForce = Num 50;
          force1 = Math_max (js_neg maxForce) (Math_min maxForce force);
          dt1 = Math_min dt (lit ar 0.02)
      in update_velocityLimits_js ar
           (update_rk4_js ar (update_failureCheck_js ar this) force1 dt1))"

definition update_js ::
  "arith \<Rightarrow> InvertedPendulum_js \<Rightarrow> number \<Rightarrow> number \<Rightarrow> InvertedPendulum_js option" where
  "update_js ar this force dt =
     update_normalize_js ar
       (update_positionLimit_js ar (update_beforePositionLimit_js ar this force dt))"


text \<open>
  The controller (lines 389-482). \<open>calculate\<close> is \<open>None\<close> if the normalisation of the
  error does not end.
\<close>

record PIDController_js =
  kp_js :: number
  ki_js :: number
  kd_js :: number
  integral_js :: number
  previousError_js :: number
  previousTime_js :: number
  filteredDerivative_js :: number
  useAngleWrapping_js :: bool

definition PIDController_js_new ::
  "number \<Rightarrow> number \<Rightarrow> number \<Rightarrow> bool \<Rightarrow> PIDController_js" where
  "PIDController_js_new kp0 ki0 kd0 useAngleWrapping0 =
     \<lparr> kp_js = kp0, ki_js = ki0, kd_js = kd0,
       integral_js = Num 0, previousError_js = Num 0, previousTime_js = Num 0,
       filteredDerivative_js = Num 0, useAngleWrapping_js = useAngleWrapping0 \<rparr>"

definition calculate_js ::
  "arith \<Rightarrow> PIDController_js \<Rightarrow> number \<Rightarrow> number \<Rightarrow> number
     \<Rightarrow> (number \<times> PIDController_js) option" where
  "calculate_js ar this setpoint processVariable currentTime =
     (case (if useAngleWrapping_js this
            then normalizeAngle_js ar (js_sub ar setpoint processVariable)
            else Some (js_sub ar setpoint processVariable)) of
        None \<Rightarrow> None
      | Some error \<Rightarrow>
          (let dt0 = (if js_eq (previousTime_js this) (Num 0) then lit ar 0.016
                      else js_sub ar currentTime (previousTime_js this));
               dt = Math_max (lit ar 0.001) (Math_min dt0 (lit ar 0.1));
               P = js_mul ar (kp_js this) error;
               integral0 = js_add ar (integral_js this) (js_mul ar error dt);
               integral1 = Math_max (Num (- 100)) (Math_min (Num 100) integral0);
               I = js_mul ar (ki_js this) integral1;
               filteredDerivative1 =
                 (if js_gt dt (Num 0)
                  then (let rawDerivative =
                              js_div ar (js_sub ar error (previousError_js this)) dt
                        in js_add ar (js_mul ar (lit ar 0.1) rawDerivative)
                             (js_mul ar (js_sub ar (Num 1) (lit ar 0.1))
                                (filteredDerivative_js this)))
                  else filteredDerivative_js this);
               derivative = (if js_gt dt (Num 0) then filteredDerivative1 else Num 0);
               D = js_mul ar (kd_js this) derivative;
               output = js_add ar (js_add ar P I) D;
               saturatedOutput = Math_max (Num (- 50)) (Math_min (Num 50) output);
               integral2 =
                 (if \<not> js_eq output saturatedOutput
                       \<and> js_eq (Math_sign error) (Math_sign integral1)
                  then js_sub ar integral1 (js_mul ar (js_mul ar error dt) (Num 0.5))
                  else integral1)
           in Some (saturatedOutput,
                this\<lparr>integral_js := integral2,
                     filteredDerivative_js := filteredDerivative1,
                     previousError_js := error,
                     previousTime_js := currentTime\<rparr>)))"

text \<open>
  What the statements below assume of the arithmetic, all of it true of IEEE 754
  doubles rounded to nearest: rounding is monotone; a value of magnitude at most
  \<open>2\<^sup>1\<^sup>0\<^sup>2\<^sup>3\<close> rounds to a finite double with relative error at most \<open>2\<^sup>-\<^sup>5\<^sup>3\<close>
  (or absolute error at most \<open>2\<^sup>-\<^sup>1\<^sup>0\<^sup>7\<^sup>5\<close>, for a subnormal); a double rounds to itself;
  twice a double is a double; the integers up to \<open>2\<^sup>5\<^sup>3\<close> are doubles; and
  \<^verbatim>\<open>Math.cos\<close> returns a value in \<open>[-1, 1]\<close>.
\<close>

definition ieee_double :: "arith \<Rightarrow> bool" where
  "ieee_double ar \<longleftrightarrow>
     (\<forall>x y. x \<le> y \<longrightarrow> \<not> js_lt (rnd ar y) (rnd ar x))
     \<and> (\<forall>x. \<bar>x\<bar> \<le> 2 ^ 1023 \<longrightarrow>
            (\<exists>y. rnd ar x = Num y \<and> \<bar>y - x\<bar> \<le> \<bar>x\<bar> / 2 ^ 53 + 1 / 2 ^ 1075))
     \<and> (\<forall>x y. rnd ar x = Num y \<longrightarrow> rnd ar y = Num y)
     \<and> (\<forall>y. rnd ar y = Num y \<longrightarrow> \<bar>y\<bar> \<le> 2 ^ 1022 \<longrightarrow> rnd ar (2 * y) = Num (2 * y))
     \<and> (\<forall>n::int. \<bar>n\<bar> \<le> 2 ^ 53 \<longrightarrow> rnd ar (of_int n) = Num (of_int n))
     \<and> (\<forall>t. \<bar>cos_impl ar t\<bar> \<le> 1)"

section \<open>Properties of the first embedding\<close>

subsection \<open>Angle normalisation\<close>


subsection \<open>What each block of \<open>update\<close> leaves alone\<close>

lemma hasFailed_update_rk4 [simp]: "hasFailed (update_rk4 this force dt) = hasFailed this"
  unfolding update_rk4_def Let_def by simp

lemma hasFailed_update_velocityLimits [simp]:
  "hasFailed (update_velocityLimits this) = hasFailed this"
  unfolding update_velocityLimits_def Let_def by simp

lemma hasFailed_update_positionLimit [simp]:
  "hasFailed (update_positionLimit this) = hasFailed this"
  unfolding update_positionLimit_def by simp

lemma hasFailed_update_normalize [simp]:
  "hasFailed (update_normalize this) = hasFailed this"
  unfolding update_normalize_def by simp

lemma hasFailed_update_failureCheck:
  "hasFailed (update_failureCheck this) \<longleftrightarrow> hasFailed this \<or> \<bar>pendulumAngle this\<bar> > pi / 3"
  unfolding update_failureCheck_def failureAngleThreshold_def by simp

lemma update_hasFailed:
  "hasFailed (update this force dt) \<longleftrightarrow> hasFailed this \<or> \<bar>pendulumAngle this\<bar> > pi / 3"
  unfolding update_def update_beforePositionLimit_def Let_def
  by (simp add: hasFailed_update_failureCheck)

lemma perform_keeps_hasFailed:
  "\<not> isReset c \<Longrightarrow> hasFailed this \<Longrightarrow> hasFailed (perform c this)"
  by (cases c) (simp_all add: update_hasFailed setMasses_def setAirResistance_def)

lemma run_keeps_hasFailed:
  "\<forall>c \<in> set cs. \<not> isReset c \<Longrightarrow> hasFailed this \<Longrightarrow> hasFailed (run cs this)"
  by (induction cs arbitrary: this) (simp_all add: perform_keeps_hasFailed)

subsection \<open>The angle after a step\<close>


subsection \<open>The failure flag\<close>

text \<open>
  Claim C4: \<open>hasFailed\<close> is monotone within a run. After \<open>update\<close> the flag is set
  exactly if it was set before or the angle at the start of the call exceeds \<open>\<pi>/3\<close> in
  absolute value; every call other than \<open>reset\<close> keeps a set flag set, and every call
  other than \<open>reset\<close> and \<open>update\<close> leaves the flag as it is; so a set flag stays set
  through any sequence of \<open>update\<close>, \<open>setMasses\<close>, \<open>setAirResistance\<close>, \<open>getState\<close> and
  \<open>getParameters\<close> calls; \<open>reset\<close> clears it.
\<close>

theorem hasFailed_sticky:
  "(hasFailed (update this force dt) \<longleftrightarrow> hasFailed this \<or> \<bar>pendulumAngle this\<bar> > pi / 3)
   \<and> (\<not> isReset c \<longrightarrow> hasFailed this \<longrightarrow> hasFailed (perform c this))
   \<and> (\<not> isReset c \<longrightarrow> \<not> isUpdate c \<longrightarrow> hasFailed (perform c this) = hasFailed this)
   \<and> ((\<forall>c \<in> set cs. \<not> isReset c) \<longrightarrow> hasFailed this \<longrightarrow> hasFailed (run cs this))
   \<and> \<not> hasFailed (reset this initialAngle)"
proof (intro conjI impI)
  show "hasFailed (update this force dt) \<longleftrightarrow> hasFailed this \<or> \<bar>pendulumAngle this\<bar> > pi / 3"
    by (rule update_hasFailed)
next
  assume "\<not> isReset c" and "hasFailed this"
  then show "hasFailed (perform c this)"
    by (rule perform_keeps_hasFailed)
next
  assume "\<not> isReset c" and "\<not> isUpdate c"
  then show "hasFailed (perform c this) = hasFailed this"
    by (cases c) (simp_all add: setMasses_def setAirResistance_def)
next
  assume "\<forall>c \<in> set cs. \<not> isReset c" and "hasFailed this"
  then show "hasFailed (run cs this)"
    by (rule run_keeps_hasFailed)
next
  show "\<not> hasFailed (reset this initialAngle)"
    by (simp add: reset_def)
qed

text \<open>
  A pendulum started at 2 rad, beyond \<open>\<pi>/3\<close>: the first step sets the flag, and it is
  still set after six more calls of every kind but \<open>reset\<close>.
\<close>

theorem hasFailed_sticky_witness:
  "\<bar>pendulumAngle (InvertedPendulum_new 1 0.1 1 2)\<bar> > pi / 3
   \<and> hasFailed (update (InvertedPendulum_new 1 0.1 1 2) 0 0.01)
   \<and> hasFailed (run [SetMasses 2 0.5, Update 10 0.01, SetAirResistance 0.3, GetState,
                     GetParameters, Update 0 0.02]
                  (update (InvertedPendulum_new 1 0.1 1 2) 0 0.01))"
proof -
  let ?p = "InvertedPendulum_new 1 0.1 1 2"
  let ?cs = "[SetMasses 2 0.5, Update 10 0.01, SetAirResistance 0.3, GetState,
              GetParameters, Update 0 0.02]"
  have angle: "\<bar>pendulumAngle ?p\<bar> > pi / 3"
    using pi_less_4 by (simp add: InvertedPendulum_new_def)
  have "hasFailed (update ?p 0 0.01) \<longleftrightarrow> hasFailed ?p \<or> \<bar>pendulumAngle ?p\<bar> > pi / 3"
    using hasFailed_sticky [of ?p 0 "0.01"] by (rule conjunct1)
  with angle have failed: "hasFailed (update ?p 0 0.01)" by simp
  have calls: "\<forall>c \<in> set ?cs. \<not> isReset c" by simp
  have "(\<forall>c \<in> set ?cs. \<not> isReset c) \<longrightarrow> hasFailed (update ?p 0 0.01)
          \<longrightarrow> hasFailed (run ?cs (update ?p 0 0.01))"
    using hasFailed_sticky [of "update ?p 0 0.01" 0 0 GetState ?cs None]
    by (elim conjE)
  with calls failed have "hasFailed (run ?cs (update ?p 0 0.01))" by (elim impE)
  with angle failed show ?thesis by (intro conjI)
qed

subsection \<open>Reset\<close>

text \<open>
  Claim C6: after any sequence of calls on a pendulum, \<open>update\<close> calls among them,
  \<open>reset(\<theta>0)\<close> followed by \<open>getState()\<close> yields exactly \<open>cartPosition = 0\<close>,
  \<open>cartVelocity = 0\<close>, \<open>pendulumAngle = \<theta>0\<close>, \<open>pendulumAngularVelocity = 0\<close> and
  \<open>hasFailed = false\<close>.
\<close>

theorem reset_then_getState:
  "getState (reset (run cs this) (Some theta0))
     = \<lparr> cartPosition = 0, cartVelocity = 0, pendulumAngle = theta0,
         pendulumAngularVelocity = 0, hasFailed = False \<rparr>"
  by (simp add: getState_def reset_def)

text \<open>
  Claim C9: \<open>reset\<close> leaves every configured parameter as it is. For the pendulum,
  \<open>massCart\<close>, \<open>massPendulum\<close>, \<open>length\<close>, \<open>gravity\<close>, \<open>friction\<close> and \<open>airResistance\<close>
  are the same after \<open>reset\<close>; for the controller, \<open>kp\<close>, \<open>ki\<close>, \<open>kd\<close> and
  \<open>useAngleWrapping\<close> are. Each \<open>reset\<close> writes the state fields only: the object after
  it is the object before it with the five, respectively four, state fields replaced.
\<close>

theorem reset_keeps_parameters:
  "massCart (reset this initialAngle) = massCart this
   \<and> massPendulum (reset this initialAngle) = massPendulum this
   \<and> length' (reset this initialAngle) = length' this
   \<and> gravity (reset this initialAngle) = gravity this
   \<and> friction (reset this initialAngle) = friction this
   \<and> airResistance (reset this initialAngle) = airResistance this
   \<and> getParameters (reset this initialAngle) = getParameters this
   \<and> kp (PID_reset c) = kp c
   \<and> ki (PID_reset c) = ki c
   \<and> kd (PID_reset c) = kd c
   \<and> useAngleWrapping (PID_reset c) = useAngleWrapping c
   \<and> getGains (PID_reset c) = getGains c
   \<and> reset this initialAngle
       = this\<lparr>cartPosition := cartPosition (reset this initialAngle),
              cartVelocity := cartVelocity (reset this initialAngle),
              pendulumAngle := pendulumAngle (reset this initialAngle),
              pendulumAngularVelocity := pendulumAngularVelocity (reset this initialAngle),
              hasFailed := hasFailed (reset this initialAngle)\<rparr>
   \<and> PID_reset c
       = c\<lparr>integral := integral (PID_reset c),
            previousError := previousError (PID_reset c),
            previousTime := previousTime (PID_reset c),
            filteredDerivative := filteredDerivative (PID_reset c)\<rparr>"
  by (simp add: reset_def PID_reset_def getParameters_def getGains_def)

subsection \<open>The equations of motion\<close>




subsection \<open>The controller: time step\<close>

lemma calculate_dt_bounds:
  "0.001 \<le> calculate_dt this currentTime" "calculate_dt this currentTime \<le> 0.1"
  "0 < calculate_dt this currentTime"
  by (simp_all add: calculate_dt_def Let_def less_max_iff_disj)

text \<open>
  Claim C7: in every \<open>calculate\<close> call the time step is 0.016 when \<open>previousTime\<close> is
  0 and \<open>currentTime - previousTime\<close> otherwise, clamped into \<open>[0.001, 0.1]\<close> in both
  cases; and this clamped value is the one the derivative term and the integral use:
  the new \<open>filteredDerivative\<close> is built from the difference quotient over it, and the
  new \<open>integral\<close> is the clamped sum \<open>integral + error \<cdot> dt\<close>, less half of
  \<open>error \<cdot> dt\<close> if the back-calculation applies.
\<close>

theorem calculate_time_step:
  "calculate_dt this currentTime
     = max 0.001 (min (if previousTime this = 0 then 0.016
                       else currentTime - previousTime this) 0.1)
   \<and> 0.001 \<le> calculate_dt this currentTime
   \<and> calculate_dt this currentTime \<le> 0.1
   \<and> (previousTime this = 0 \<longrightarrow> calculate_dt this currentTime = 0.016)
   \<and> (previousTime this \<noteq> 0 \<longrightarrow>
        calculate_dt this currentTime = max 0.001 (min (currentTime - previousTime this) 0.1))
   \<and> filteredDerivative (snd (calculate this setpoint processVariable currentTime))
       = 0.1 * ((calculate_error this setpoint processVariable - previousError this)
                  / calculate_dt this currentTime)
         + (1 - 0.1) * filteredDerivative this
   \<and> (let integral1 = max (- 100) (min 100
             (integral this
                + calculate_error this setpoint processVariable * calculate_dt this currentTime))
      in integral (snd (calculate this setpoint processVariable currentTime)) = integral1
       \<or> integral (snd (calculate this setpoint processVariable currentTime))
           = integral1
             - calculate_error this setpoint processVariable * calculate_dt this currentTime * 0.5)"
proof (intro conjI impI)
  show "calculate_dt this currentTime
     = max 0.001 (min (if previousTime this = 0 then 0.016
                       else currentTime - previousTime this) 0.1)"
    by (simp add: calculate_dt_def Let_def)
  show lo: "0.001 \<le> calculate_dt this currentTime"
    by (simp add: calculate_dt_def Let_def)
  show "calculate_dt this currentTime \<le> 0.1"
    by (simp add: calculate_dt_def Let_def)
  show "calculate_dt this currentTime = 0.016" if "previousTime this = 0"
    using that by (simp add: calculate_dt_def Let_def)
  show "calculate_dt this currentTime = max 0.001 (min (currentTime - previousTime this) 0.1)"
    if "previousTime this \<noteq> 0"
    using that by (simp add: calculate_dt_def Let_def)
  have pos: "calculate_dt this currentTime > 0"
    by (simp add: calculate_dt_def Let_def less_max_iff_disj)
  show "filteredDerivative (snd (calculate this setpoint processVariable currentTime))
       = 0.1 * ((calculate_error this setpoint processVariable - previousError this)
                  / calculate_dt this currentTime)
         + (1 - 0.1) * filteredDerivative this"
    using pos by (simp add: calculate_def Let_def derivativeFilterAlpha_def)
  show "let integral1 = max (- 100) (min 100
             (integral this
                + calculate_error this setpoint processVariable * calculate_dt this currentTime))
      in integral (snd (calculate this setpoint processVariable currentTime)) = integral1
       \<or> integral (snd (calculate this setpoint processVariable currentTime))
           = integral1
             - calculate_error this setpoint processVariable * calculate_dt this currentTime * 0.5"
    by (simp add: calculate_def Let_def integralMax_def integralMin_def)
qed

text \<open>
  A new controller, and one whose last sample was at time 1: a gap of 0.5 is cut to
  0.1, a gap of 0.0005 is raised to 0.001, a gap of 0.02 is kept.
\<close>

theorem calculate_time_step_witness:
  "calculate_dt (PIDController_new 100 1 50 False) 7 = 0.016
   \<and> calculate_dt ((PIDController_new 100 1 50 False)\<lparr>previousTime := 1\<rparr>) 1.5 = 0.1
   \<and> calculate_dt ((PIDController_new 100 1 50 False)\<lparr>previousTime := 1\<rparr>) 1.0005 = 0.001
   \<and> calculate_dt ((PIDController_new 100 1 50 False)\<lparr>previousTime := 1\<rparr>) 1.02 = 0.02"
  using calculate_time_step [where this = "PIDController_new 100 1 50 False"
      and currentTime = 7]
    calculate_time_step [where this = "(PIDController_new 100 1 50 False)\<lparr>previousTime := 1\<rparr>"
      and currentTime = "1.5"]
    calculate_time_step [where this = "(PIDController_new 100 1 50 False)\<lparr>previousTime := 1\<rparr>"
      and currentTime = "1.0005"]
    calculate_time_step [where this = "(PIDController_new 100 1 50 False)\<lparr>previousTime := 1\<rparr>"
      and currentTime = "1.02"]
  by (simp add: PIDController_new_def)

subsection \<open>The controller: integral\<close>

lemma calculate_integral:
  "integral (snd (calculate this setpoint processVariable currentTime))
     = (let e = calculate_error this setpoint processVariable;
            dt = calculate_dt this currentTime;
            i1 = max (- 100) (min 100 (integral this + e * dt))
        in if fst (calculate this setpoint processVariable currentTime)
                \<noteq> kp this * e + ki this * i1
                    + kd this * (0.1 * ((e - previousError this) / dt)
                                 + (1 - 0.1) * filteredDerivative this)
              \<and> sgn e = sgn i1
           then i1 - e * dt * 0.5 else i1)"
  using calculate_dt_bounds(3) [of this currentTime]
  by (simp add: calculate_def Let_def derivativeFilterAlpha_def integralMax_def
      integralMin_def outputMax_def outputMin_def mult.commute eq_commute)

lemma back_calculation_in_range:
  fixes e dt i1 :: real
  assumes e: "\<bar>e\<bar> \<le> 2000" and dt: "0 < dt" "dt \<le> 0.1"
    and i1: "- 100 \<le> i1" "i1 \<le> 100" and same: "sgn e = sgn i1"
  shows "- 100 \<le> i1 - e * dt * 0.5 \<and> i1 - e * dt * 0.5 \<le> 100"
proof -
  have "\<bar>e * dt\<bar> \<le> 2000 * 0.1"
    unfolding abs_mult using e dt by (intro mult_mono) simp_all
  then have step: "\<bar>e * dt * 0.5\<bar> \<le> 100"
    by (simp add: abs_mult)
  consider "0 < e" | "e = 0" | "e < 0" by linarith
  then show ?thesis
  proof cases
    case 1
    with same have "0 < i1" by (simp add: sgn_if split: if_splits)
    moreover have "0 \<le> e * dt * 0.5" using 1 dt by simp
    ultimately show ?thesis using step i1 by linarith
  next
    case 2
    with i1 show ?thesis by simp
  next
    case 3
    with same have "i1 < 0" by (simp add: sgn_if split: if_splits)
    moreover have "e * dt * 0.5 \<le> 0" using 3 dt by (simp add: mult_le_0_iff)
    ultimately show ?thesis using step i1 by linarith
  qed
qed

lemma calculate_integral_in_range_for_moderate_error:
  assumes "\<bar>calculate_error this setpoint processVariable\<bar> \<le> 2000"
  shows "- 100 \<le> integral (snd (calculate this setpoint processVariable currentTime))
       \<and> integral (snd (calculate this setpoint processVariable currentTime)) \<le> 100"
proof -
  define e where "e = calculate_error this setpoint processVariable"
  define dt where "dt = calculate_dt this currentTime"
  define i1 where "i1 = max (- 100) (min 100 (integral this + e * dt))"
  have i1: "- 100 \<le> i1" "i1 \<le> 100"
    unfolding i1_def by simp_all
  have dt: "0 < dt" "dt \<le> 0.1"
    unfolding dt_def by (rule calculate_dt_bounds)+
  have "integral (snd (calculate this setpoint processVariable currentTime)) = i1
      \<or> (sgn e = sgn i1
          \<and> integral (snd (calculate this setpoint processVariable currentTime))
              = i1 - e * dt * 0.5)"
    unfolding calculate_integral Let_def e_def dt_def i1_def by simp
  then show ?thesis
  proof
    assume "integral (snd (calculate this setpoint processVariable currentTime)) = i1"
    with i1 show ?thesis by simp
  next
    assume bc: "sgn e = sgn i1
          \<and> integral (snd (calculate this setpoint processVariable currentTime))
              = i1 - e * dt * 0.5"
    have "\<bar>e\<bar> \<le> 2000" using assms unfolding e_def .
    from back_calculation_in_range [OF this dt i1] bc show ?thesis by simp
  qed
qed

text \<open>
  Claim C1: after every \<open>calculate\<close> call the field \<open>integral\<close> lies in \<open>[-100, 100]\<close>,
  also when the back-calculation \<open>integral -= error * dt * 0.5\<close> is applied after the
  clamp. The code does not keep this: the back-calculation is not clamped again. A
  new controller \<open>PIDController(1, 0, 0)\<close> called with setpoint 30000 and measured
  value 0 clamps the integral to 100, saturates, and then subtracts
  \<open>30000 \<cdot> 0.016 \<cdot> 0.5 = 240\<close>: the field is \<open>-140\<close>, below \<open>integralMin\<close>. (The lemma
  above shows the range is kept for every error of at most 2000 in absolute value.)
\<close>

theorem calculate_integral_escapes:
  "integral (snd (calculate (PIDController_new 1 0 0 False) 30000 0 1)) = - 140
   \<and> integral (snd (calculate (PIDController_new 1 0 0 False) 30000 0 1)) < integralMin"
  by (simp add: calculate_def calculate_error_def calculate_dt_def PIDController_new_def
      Let_def integralMax_def integralMin_def outputMax_def outputMin_def
      derivativeFilterAlpha_def)

section \<open>Properties of the second embedding\<close>

subsection \<open>Comparisons and rounding\<close>

lemma js_lt_NaN [simp]: "js_lt a NaN = False"
  by (cases a) simp_all

lemma js_lt_irrefl [simp]: "js_lt a a = False"
  by (cases a) simp_all

lemma js_le_Num [simp]: "js_le (Num x) (Num y) = (x \<le> y)"
  by (auto simp: js_le_def js_eq_def)






lemma ieee_int:
  "ieee_double ar \<Longrightarrow> \<bar>n\<bar> \<le> 2 ^ 53 \<Longrightarrow> rnd ar (of_int n) = Num (of_int n)"
  unfolding ieee_double_def by blast








subsection \<open>The arithmetic that rounds nothing\<close>

lemma rnd_unrounded:
  "- (2 ^ 1024) < x \<Longrightarrow> x < 2 ^ 1024 \<Longrightarrow> rnd unrounded x = Num x"
  by (simp add: unrounded_def)


lemma Math_PI_unrounded: "Math_PI unrounded = Num pi"
  unfolding Math_PI_def using pi_less_4 pi_ge_two by (intro rnd_unrounded) simp_all

lemma failureAngleThreshold_unrounded: "failureAngleThreshold_js unrounded = Num (pi / 3)"
proof -
  have "rnd unrounded (pi / 3) = Num (pi / 3)"
    using pi_less_4 pi_ge_two by (intro rnd_unrounded) simp_all
  then show ?thesis
    by (simp add: failureAngleThreshold_js_def Math_PI_unrounded)
qed

lemma normalizeAngle_js_NaN: "normalizeAngle_js ar NaN = Some NaN"
proof -
  have "normalizeAngle_loop1_js ar NaN = Some NaN"
    by (subst normalizeAngle_loop1_js.simps) (simp add: js_gt_def)
  moreover have "normalizeAngle_loop2_js ar NaN = Some NaN"
    by (subst normalizeAngle_loop2_js.simps) simp
  ultimately show ?thesis
    by (simp add: normalizeAngle_js_def)
qed


subsection \<open>The angle after a step\<close>












lemma pendulumAngle_update_positionLimit_js [simp]:
  "pendulumAngle_js (update_positionLimit_js ar this) = pendulumAngle_js this"
  by (simp add: update_positionLimit_js_def)


text \<open>
  The default pendulum, upright and at rest, with no force: in the arithmetic that
  rounds nothing the step returns and leaves the pendulum as it is, at the angle 0.
\<close>

lemmas eval_defs = derivative_js_def denominator_js_def angularDivisor_js_def
  InvertedPendulum_js_new_def lit_def js_sub_def unrounded_def Let_def

lemma step_arguments:
  "Math_max (js_neg (Num 50)) (Math_min (Num 50) (Num 0)) = Num 0"
  "Math_min (Num 0.01) (lit unrounded 0.02) = Num 0.01"
  "js_div unrounded (Num 0.01) (Num 2) = Num 0.005"
  by (simp_all add: Math_max_def Math_min_def lit_def unrounded_def)





subsection \<open>The position after a step\<close>

lemma update_positionLimit_js_range:
  assumes ar: "ieee_double ar"
  shows "cartPosition_js (update_positionLimit_js ar this) = NaN
         \<or> js_le (Math_abs (cartPosition_js (update_positionLimit_js ar this))) maxCartPosition_js"
proof -
  have five: "rnd ar 5 = Num 5" "rnd ar (- 5) = Num (- 5)"
    using ieee_int [OF ar, of 5] ieee_int [OF ar, of "- 5"] by simp_all
  show ?thesis
    by (cases "cartPosition_js this")
       (auto simp: update_positionLimit_js_def maxCartPosition_js_def js_gt_def js_le_def
          js_eq_def five sgn_if)
qed

lemma update_js_position_range:
  assumes ar: "ieee_double ar" and "update_js ar this force dt = Some this'"
  shows "cartPosition_js this' = NaN
         \<or> js_le (Math_abs (cartPosition_js this')) maxCartPosition_js"
proof -
  from assms(2) obtain r where "this' =
      (update_positionLimit_js ar (update_beforePositionLimit_js ar this force dt))
        \<lparr>pendulumAngle_js := r\<rparr>"
    unfolding update_js_def update_normalize_js_def by (auto split: option.splits)
  then have "cartPosition_js this' = cartPosition_js
      (update_positionLimit_js ar (update_beforePositionLimit_js ar this force dt))"
    by simp
  with update_positionLimit_js_range [OF ar] show ?thesis by simp
qed

text \<open>
  A pendulum constructed with length 0, upright and at rest: the first slope has the
  angular acceleration \<open>0 / 0\<close>, the later slopes are NaN throughout.
\<close>

lemma rod0_k1:
  "derivative_js unrounded (InvertedPendulum_js_new unrounded (Num 1) (Num 0.1) (Num 0) (Num 0))
       (Num 0) (Num 0) None
     = \<lparr> dx_js = Num 0, dv_js = Num 0, dtheta_js = Num 0, domega_js = NaN \<rparr>"
  by (simp add: eval_defs)

lemma rod0_k2:
  "derivative_js unrounded (InvertedPendulum_js_new unrounded (Num 1) (Num 0.1) (Num 0) (Num 0))
       (Num 0) (Num 0.005)
       (Some \<lparr> dx_js = Num 0, dv_js = Num 0, dtheta_js = Num 0, domega_js = NaN \<rparr>)
     = \<lparr> dx_js = Num 0, dv_js = NaN, dtheta_js = NaN, domega_js = NaN \<rparr>"
  by (simp add: eval_defs)

lemma rod0_k3:
  "derivative_js unrounded (InvertedPendulum_js_new unrounded (Num 1) (Num 0.1) (Num 0) (Num 0))
       (Num 0) h
       (Some \<lparr> dx_js = a, dv_js = NaN, dtheta_js = NaN, domega_js = NaN \<rparr>)
     = \<lparr> dx_js = NaN, dv_js = NaN, dtheta_js = NaN, domega_js = NaN \<rparr>"
  by (cases h; cases a) (simp_all add: eval_defs)

lemma rod0_failureCheck:
  "update_failureCheck_js unrounded
       (InvertedPendulum_js_new unrounded (Num 1) (Num 0.1) (Num 0) (Num 0))
     = InvertedPendulum_js_new unrounded (Num 1) (Num 0.1) (Num 0) (Num 0)"
  by (simp add: update_failureCheck_js_def failureAngleThreshold_unrounded js_gt_def
      InvertedPendulum_js_new_def)

lemma rod0_rk4:
  "update_rk4_js unrounded (InvertedPendulum_js_new unrounded (Num 1) (Num 0.1) (Num 0) (Num 0))
       (Num 0) (Num 0.01)
     = (InvertedPendulum_js_new unrounded (Num 1) (Num 0.1) (Num 0) (Num 0))
         \<lparr>cartPosition_js := NaN, cartVelocity_js := NaN, pendulumAngle_js := NaN,
          pendulumAngularVelocity_js := NaN\<rparr>"
  unfolding update_rk4_js_def Let_def step_arguments rod0_k1 rod0_k2 rod0_k3
  by (simp add: rk4_sum_def InvertedPendulum_js_new_def unrounded_def)

lemma rod0_before:
  "update_beforePositionLimit_js unrounded
       (InvertedPendulum_js_new unrounded (Num 1) (Num 0.1) (Num 0) (Num 0)) (Num 0) (Num 0.01)
     = (InvertedPendulum_js_new unrounded (Num 1) (Num 0.1) (Num 0) (Num 0))
         \<lparr>cartPosition_js := NaN, cartVelocity_js := NaN, pendulumAngle_js := NaN,
          pendulumAngularVelocity_js := NaN\<rparr>"
  unfolding update_beforePositionLimit_js_def Let_def step_arguments rod0_failureCheck rod0_rk4
  by (simp add: update_velocityLimits_js_def js_gt_def Let_def)

text \<open>
  Claim C3: after every \<open>update\<close> call \<open>|cartPosition| \<le> maxCartPosition\<close>, and a step
  past the boundary puts the cart on the boundary with its velocity multiplied by
  \<open>-0.5\<close>. The code does not keep the bound: \<^verbatim>\<open>new InvertedPendulum(1, 0.1, 0, 0)\<close>
  followed by \<^verbatim>\<open>update(0, 0.01)\<close> divides by \<open>length * denominator = 0\<close>, every
  state field is NaN after the call, and \<^verbatim>\<open>Math.abs(NaN) > 5\<close> is false, so the
  limit is not applied: \<open>|cartPosition| \<le> 5\<close> does not hold. (The lemma
  \<open>update_js_position_range\<close> shows the bound for every call that returns a
  position that is a number.)
\<close>

theorem update_js_position_not_a_number:
  "update_js unrounded (InvertedPendulum_js_new unrounded (Num 1) (Num 0.1) (Num 0) (Num 0))
       (Num 0) (Num 0.01)
     = Some ((InvertedPendulum_js_new unrounded (Num 1) (Num 0.1) (Num 0) (Num 0))
         \<lparr>cartPosition_js := NaN, cartVelocity_js := NaN, pendulumAngle_js := NaN,
          pendulumAngularVelocity_js := NaN\<rparr>)
   \<and> \<not> js_le (Math_abs NaN) maxCartPosition_js"
  unfolding update_js_def rod0_before
  by (simp add: update_positionLimit_js_def update_normalize_js_def js_gt_def
      normalizeAngle_js_NaN js_le_def js_eq_def)


subsection \<open>The output of the controller\<close>

lemma clamp_js_range:
  "Math_max (Num lo) (Math_min (Num hi) a) = NaN
   \<or> (js_le (Num lo) (Math_max (Num lo) (Math_min (Num hi) a))
       \<and> (lo \<le> hi \<longrightarrow> js_le (Math_max (Num lo) (Math_min (Num hi) a)) (Num hi)))"
  by (cases a) (auto simp: Math_max_def Math_min_def js_le_def js_eq_def)

lemma calculate_js_output_range:
  assumes "calculate_js ar this setpoint processVariable currentTime = Some (out, this')"
  shows "out = NaN \<or> (js_le (Num (- 50)) out \<and> js_le out (Num 50))"
proof -
  from assms obtain y where "out = Math_max (Num (- 50)) (Math_min (Num 50) y)"
    unfolding calculate_js_def Let_def by (auto split: option.splits if_splits)
  with clamp_js_range [of "- 50" 50 y] show ?thesis by simp
qed

text \<open>
  Claim C5: the value \<open>calculate\<close> returns is \<open>P + I + D\<close> clamped into \<open>[-50, 50]\<close>,
  so it always lies in \<open>[-50, 50]\<close>, and with \<open>kp = 1000\<close> and a sufficiently large
  error it is exactly \<open>50\<close> or \<open>-50\<close>. The code does not keep this:
  \<^verbatim>\<open>new PIDController(1000, 0, 0).calculate(1e307, 0, 1)\<close> returns NaN. The
  difference quotient \<open>1e307 / 0.016\<close> overflows to \<open>Infinity\<close>, the derivative term is
  \<open>0 * Infinity = NaN\<close>, so is the sum, and \<^verbatim>\<open>Math.max\<close>, \<^verbatim>\<open>Math.min\<close> return
  NaN on NaN. (The lemma \<open>calculate_js_output_range\<close> shows the range for every
  returned value that is a number.)
\<close>

theorem calculate_js_not_a_number:
  "map_option fst
     (calculate_js unrounded (PIDController_js_new (Num 1000) (Num 0) (Num 0) False)
        (Num (10 ^ 307)) (Num 0) (Num 1))
     = Some NaN"
  by (simp add: calculate_js_def PIDController_js_new_def lit_def js_sub_def js_eq_def js_gt_def
      Math_max_def Math_min_def unrounded_def Let_def)

subsection \<open>The denominator of the equations of motion\<close>






end
